theory Spec2Isabelle
  imports Complex_Main "HOL-Library.Char_ord" "HOL-Library.List_Lexorder"
    "HOL-Library.Product_Lexorder" "HOL-Library.Log_Nat"
begin

section \<open>Strings\<close>

text \<open>
  JavaScript strings are modelled as \<^typ>\<open>string\<close> restricted to ASCII: the white space
  removed by \<^verbatim>\<open>String.prototype.trim\<close> is TAB, LF, VT, FF, CR and SPACE, and
  \<^verbatim>\<open>toUpperCase\<close> maps \<^verbatim>\<open>a-z\<close> to \<^verbatim>\<open>A-Z\<close> and leaves every other
  character alone.
\<close>

definition isWhiteSpace :: "char \<Rightarrow> bool" where
  "isWhiteSpace c \<longleftrightarrow>
     c = CHR 0x09 \<or> c = CHR 0x0A \<or> c = CHR 0x0B \<or> c = CHR 0x0C \<or> c = CHR 0x0D \<or> c = CHR 0x20"

definition trim :: "string \<Rightarrow> string" where
  "trim s = rev (dropWhile isWhiteSpace (rev (dropWhile isWhiteSpace s)))"

definition upperChar :: "char \<Rightarrow> char" where
  "upperChar c =
     (let n = (of_char c :: nat) in if 97 \<le> n \<and> n \<le> 122 then char_of (n - 32) else c)"

definition toUpperCase :: "string \<Rightarrow> string" where
  "toUpperCase s = map upperChar s"

text \<open>\<^verbatim>\<open>s.replace(/[<>]/g, '')\<close>\<close>

definition stripAngle :: "string \<Rightarrow> string" where
  "stripAngle s = filter (\<lambda>c. c \<noteq> CHR ''<'' \<and> c \<noteq> CHR ''>'') s"

text \<open>helpers.js, \<^verbatim>\<open>sanitizeInput\<close> on a string and \<^verbatim>\<open>normalizeString\<close> on a string.\<close>

definition sanitizeInput :: "string \<Rightarrow> string" where
  "sanitizeInput data = stripAngle (trim data)"

definition normalizeString :: "string \<Rightarrow> string" where
  "normalizeString str = toUpperCase (trim str)"

definition leadingWs :: "string \<Rightarrow> bool" where
  "leadingWs s = (case s of [] \<Rightarrow> False | c # _ \<Rightarrow> isWhiteSpace c)"

definition trailingWs :: "string \<Rightarrow> bool" where
  "trailingWs s = leadingWs (rev s)"

section \<open>Numbers\<close>

text \<open>
  JavaScript Numbers that hold integers are modelled as \<^typ>\<open>int\<close>, with \<open>None\<close> for
  \<^verbatim>\<open>NaN\<close>; the model is exact for magnitudes up to \<open>2^53\<close>.
  \<^verbatim>\<open>parseInt(string)\<close> without a radix: skip leading white space, read a sign, switch to
  radix 16 after \<^verbatim>\<open>0x\<close> or \<^verbatim>\<open>0X\<close>, and read the longest prefix of digits; no digit
  gives \<^verbatim>\<open>NaN\<close>.
\<close>

definition digitVal :: "char \<Rightarrow> nat option" where
  "digitVal c =
     (let n = (of_char c :: nat) in
      if 48 \<le> n \<and> n \<le> 57 then Some (n - 48)
      else if 97 \<le> n \<and> n \<le> 122 then Some (n - 87)
      else if 65 \<le> n \<and> n \<le> 90 then Some (n - 55)
      else None)"

definition isRadixDigit :: "nat \<Rightarrow> char \<Rightarrow> bool" where
  "isRadixDigit R c = (case digitVal c of None \<Rightarrow> False | Some d \<Rightarrow> d < R)"

definition digitsValue :: "nat \<Rightarrow> string \<Rightarrow> nat" where
  "digitsValue R ds =
     foldl (\<lambda>acc c. acc * R + (case digitVal c of None \<Rightarrow> 0 | Some d \<Rightarrow> d)) 0 ds"

definition readSign :: "string \<Rightarrow> int \<times> string" where
  "readSign s =
     (case s of
        [] \<Rightarrow> (1, s)
      | c # t \<Rightarrow> if c = CHR ''-'' then (- 1, t) else if c = CHR ''+'' then (1, t) else (1, s))"

definition readRadix :: "string \<Rightarrow> nat \<times> string" where
  "readRadix s =
     (case s of
        a # b # t \<Rightarrow>
          if a = CHR ''0'' \<and> (b = CHR ''x'' \<or> b = CHR ''X'') then (16, t) else (10, s)
      | _ \<Rightarrow> (10, s))"

definition parseInt :: "string \<Rightarrow> int option" where
  "parseInt input =
     (let (sign, s1) = readSign (dropWhile isWhiteSpace input);
          (R, s2) = readRadix s1;
          z = takeWhile (isRadixDigit R) s2
      in if z = [] then None else Some (sign * int (digitsValue R z)))"

text \<open>\<^verbatim>\<open>n || d\<close> for a Number \<open>n\<close>: \<^verbatim>\<open>NaN\<close> and \<open>0\<close> are falsy.\<close>

definition orElse :: "int option \<Rightarrow> int \<Rightarrow> int" where
  "orElse n d = (case n of None \<Rightarrow> d | Some v \<Rightarrow> if v = 0 then d else v)"

text \<open>The decimal text of a natural number, as the store prints a \<^verbatim>\<open>bigint\<close> count and as a
  template literal prints a placeholder index.\<close>

fun decimal :: "nat \<Rightarrow> string" where
  "decimal n =
     (if n < 10 then [char_of (48 + n)] else decimal (n div 10) @ [char_of (48 + n mod 10)])"

declare decimal.simps [simp del]


section \<open>Payloads and validation\<close>

text \<open>
  The five text fields a payload can carry; the first four are the required ones. A payload
  field is a string or absent (\<open>None\<close> is \<^verbatim>\<open>undefined\<close>); the optional
  \<^verbatim>\<open>data_solicitacao\<close> is kept as the instant it denotes.
\<close>

datatype field = Nome_pessoa | Setor | Centro_custo | Equipamento | Status

record payload =
  text_of :: "field \<Rightarrow> string option"
  data_solicitacao :: "nat option"

definition required :: "field list" where
  "required = [Nome_pessoa, Setor, Centro_custo, Equipamento]"

definition allowedFields :: "field list" where
  "allowedFields = [Nome_pessoa, Setor, Centro_custo, Equipamento, Status]"

definition statusValidos :: "string list" where
  "statusValidos = [''Pendente'', ''Em Andamento'', ''Comprado'', ''Cancelado'']"

text \<open>A string-or-undefined value used as a condition: \<^verbatim>\<open>undefined\<close> and \<^verbatim>\<open>''\<close> are falsy.\<close>

definition truthy :: "string option \<Rightarrow> bool" where
  "truthy v = (case v of None \<Rightarrow> False | Some s \<Rightarrow> s \<noteq> [])"

text \<open>\<^verbatim>\<open>!data[field] || data[field].trim() === ''\<close>\<close>

definition blank :: "string option \<Rightarrow> bool" where
  "blank v = (case v of None \<Rightarrow> True | Some s \<Rightarrow> s = [] \<or> trim s = [])"

text \<open>\<^verbatim>\<open>sanitizeInput\<close> on an object sanitizes every string value and keeps the others.\<close>

definition sanitizeObject :: "payload \<Rightarrow> payload" where
  "sanitizeObject data = data\<lparr>text_of := (\<lambda>f. map_option sanitizeInput (text_of data f))\<rparr>"

text \<open>\<^verbatim>\<open>if (data.f) data.f = normalizeString(data.f)\<close>, for the four required fields.\<close>

definition normalizeFields :: "payload \<Rightarrow> payload" where
  "normalizeFields data =
     data\<lparr>text_of := (\<lambda>f. if f \<noteq> Status \<and> truthy (text_of data f)
                           then map_option normalizeString (text_of data f)
                           else text_of data f)\<rparr>"

text \<open>
  Validation messages:
  \<open>Obrigatorio f\<close> is \<^verbatim>\<open>O campo '<f>' e obrigatorio\<close>,
  \<open>Vazio f\<close> is \<^verbatim>\<open><Nome da pessoa | Setor | Centro de custo | Equipamento> nao pode estar vazio\<close>,
  \<open>StatusInvalido\<close> is \<^verbatim>\<open>Status invalido\<close>,
  \<open>MaxLen f n\<close> is \<^verbatim>\<open><...> deve ter no maximo <n> caracteres\<close>.
\<close>

datatype violation = Obrigatorio field | Vazio field | StatusInvalido | MaxLen field nat

definition tooLong :: "payload \<Rightarrow> field \<Rightarrow> nat \<Rightarrow> violation list" where
  "tooLong data f n =
     (case text_of data f of
        None \<Rightarrow> []
      | Some s \<Rightarrow> if s \<noteq> [] \<and> length s > n then [MaxLen f n] else [])"

definition validateData :: "payload \<Rightarrow> bool \<Rightarrow> violation list" where
  "validateData data isUpdate =
     (if \<not> isUpdate
      then concat (map (\<lambda>f. if blank (text_of data f) then [Obrigatorio f] else []) required)
      else concat (map (\<lambda>f. if text_of data f \<noteq> None \<and> blank (text_of data f) then [Vazio f] else [])
                       required))
     @ (case text_of data Status of
          None \<Rightarrow> []
        | Some s \<Rightarrow> if s \<noteq> [] \<and> s \<notin> set statusValidos then [StatusInvalido] else [])
     @ tooLong data Nome_pessoa 255 @ tooLong data Setor 100 @ tooLong data Centro_custo 50"

section \<open>The store\<close>

text \<open>
  The relational store is outside the repository; this is the model of it that the
  repository code is run against: one table \<^verbatim>\<open>solicitacoes\<close> and its \<^verbatim>\<open>SERIAL\<close> sequence.
  The store is reachable, instants are natural numbers, and the declared lengths of the
  \<^verbatim>\<open>VARCHAR\<close> columns are enforced.
\<close>

record row =
  r_id :: int
  r_nome_pessoa :: string
  r_setor :: string
  r_centro_custo :: string
  r_equipamento :: string
  r_data_solicitacao :: nat
  r_status :: string
  r_created_at :: nat
  r_updated_at :: nat

record db =
  db_rows :: "row list"
  db_seq :: int

fun col :: "field \<Rightarrow> row \<Rightarrow> string" where
  "col Nome_pessoa r = r_nome_pessoa r"
| "col Setor r = r_setor r"
| "col Centro_custo r = r_centro_custo r"
| "col Equipamento r = r_equipamento r"
| "col Status r = r_status r"

fun set_col :: "field \<Rightarrow> string \<Rightarrow> row \<Rightarrow> row" where
  "set_col Nome_pessoa v r = r\<lparr>r_nome_pessoa := v\<rparr>"
| "set_col Setor v r = r\<lparr>r_setor := v\<rparr>"
| "set_col Centro_custo v r = r\<lparr>r_centro_custo := v\<rparr>"
| "set_col Equipamento v r = r\<lparr>r_equipamento := v\<rparr>"
| "set_col Status v r = r\<lparr>r_status := v\<rparr>"

fun colName :: "field \<Rightarrow> string" where
  "colName Nome_pessoa = ''nome_pessoa''"
| "colName Setor = ''setor''"
| "colName Centro_custo = ''centro_custo''"
| "colName Equipamento = ''equipamento''"
| "colName Status = ''status''"

text \<open>Declared length of a text column; \<^verbatim>\<open>equipamento\<close> is \<^verbatim>\<open>TEXT\<close>.\<close>

fun maxLen :: "field \<Rightarrow> nat option" where
  "maxLen Nome_pessoa = Some 255"
| "maxLen Setor = Some 100"
| "maxLen Centro_custo = Some 50"
| "maxLen Equipamento = None"
| "maxLen Status = Some 50"

definition fits :: "field \<Rightarrow> string \<Rightarrow> bool" where
  "fits f v = (case maxLen f of None \<Rightarrow> True | Some n \<Rightarrow> length v \<le> n)"

text \<open>Errors of the store driver: a message and the \<^verbatim>\<open>code\<close> property.\<close>

datatype pgerror = PgError string string

subsection \<open>Pattern matching\<close>

text \<open>
  \<open>like pattern subject\<close> is \<^verbatim>\<open>subject LIKE pattern\<close>: \<^verbatim>\<open>%\<close> matches any run of
  characters, \<^verbatim>\<open>_\<close> one character, a backslash makes the next pattern character literal
  (the patterns built by the repository end in \<^verbatim>\<open>%\<close>, never in a lone backslash).
  \<^verbatim>\<open>ILIKE\<close> compares without regard to case.
\<close>

fun like :: "string \<Rightarrow> string \<Rightarrow> bool" where
  "like [] s = (s = [])"
| "like (p # ps) [] = (p = CHR ''%'' \<and> like ps [])"
| "like (p # ps) (c # t) =
     (if p = CHR ''%'' then like ps (c # t) \<or> like (p # ps) t
      else if p = CHR ''_'' then like ps t
      else if p = CHR 0x5C then (case ps of [] \<Rightarrow> False | q # qs \<Rightarrow> c = q \<and> like qs t)
      else c = p \<and> like ps t)"

definition lowerChar :: "char \<Rightarrow> char" where
  "lowerChar c =
     (let n = (of_char c :: nat) in if 65 \<le> n \<and> n \<le> 90 then char_of (n + 32) else c)"

definition ilike :: "string \<Rightarrow> string \<Rightarrow> bool" where
  "ilike s pat = like (map lowerChar pat) (map lowerChar s)"

subsection \<open>Statements\<close>

datatype param = PStr string | PNum int | PNaN

text \<open>A condition of a \<^verbatim>\<open>WHERE\<close> clause; the number is the index of a placeholder \<^verbatim>\<open>$n\<close>.\<close>

datatype cond = Eq field nat | ILike field nat | Or cond cond

fun condSql :: "cond \<Rightarrow> string" where
  "condSql (Eq f i) = colName f @ '' = $'' @ decimal i"
| "condSql (ILike f i) = colName f @ '' ILIKE $'' @ decimal i"
| "condSql (Or a b) = ''('' @ condSql a @ '' OR '' @ condSql b @ '')''"

text \<open>\<^verbatim>\<open>conditions.join(' AND ')\<close>\<close>

fun joinAnd :: "string list \<Rightarrow> string" where
  "joinAnd [] = []"
| "joinAnd [x] = x"
| "joinAnd (x # y # ys) = x @ '' AND '' @ joinAnd (y # ys)"

definition nthParam :: "param list \<Rightarrow> nat \<Rightarrow> param option" where
  "nthParam ps i = (if 1 \<le> i \<and> i \<le> length ps then Some (ps ! (i - 1)) else None)"

definition textParam :: "param list \<Rightarrow> nat \<Rightarrow> string option" where
  "textParam ps i = (case nthParam ps i of Some (PStr v) \<Rightarrow> Some v | _ \<Rightarrow> None)"

definition numParam :: "param list \<Rightarrow> nat \<Rightarrow> int option" where
  "numParam ps i = (case nthParam ps i of Some (PNum v) \<Rightarrow> Some v | _ \<Rightarrow> None)"

fun condBound :: "param list \<Rightarrow> cond \<Rightarrow> bool" where
  "condBound ps (Eq f i) = (textParam ps i \<noteq> None)"
| "condBound ps (ILike f i) = (textParam ps i \<noteq> None)"
| "condBound ps (Or a b) = (condBound ps a \<and> condBound ps b)"

fun condHolds :: "param list \<Rightarrow> row \<Rightarrow> cond \<Rightarrow> bool" where
  "condHolds ps r (Eq f i) = (case textParam ps i of None \<Rightarrow> False | Some v \<Rightarrow> col f r = v)"
| "condHolds ps r (ILike f i) = (case textParam ps i of None \<Rightarrow> False | Some v \<Rightarrow> ilike (col f r) v)"
| "condHolds ps r (Or a b) = (condHolds ps r a \<or> condHolds ps r b)"

definition whereRows :: "cond list \<Rightarrow> param list \<Rightarrow> row list \<Rightarrow> row list" where
  "whereRows conds ps rs = filter (\<lambda>r. list_all (condHolds ps r) conds) rs"

subsection \<open>Ordering\<close>

text \<open>
  The ordering clauses the model store understands: a column name, alone or followed by
  \<^verbatim>\<open>ASC\<close> or \<^verbatim>\<open>DESC\<close>. Any other text is answered with a syntax error (a real store
  reads more forms, such as several keys or expressions; what is stated below about the rows
  of a list is stated for the clauses understood here).
\<close>

datatype ordcol = OText field | OId | OData | OCreated | OUpdated

definition ordcols :: "(string \<times> ordcol) list" where
  "ordcols =
     [(''id'', OId), (''nome_pessoa'', OText Nome_pessoa), (''setor'', OText Setor),
      (''centro_custo'', OText Centro_custo), (''equipamento'', OText Equipamento),
      (''data_solicitacao'', OData), (''status'', OText Status),
      (''created_at'', OCreated), (''updated_at'', OUpdated)]"

definition parseOrder :: "string \<Rightarrow> (ordcol \<times> bool) option" where
  "parseOrder s =
     (case map_of ordcols s of
        Some c \<Rightarrow> Some (c, False)
      | None \<Rightarrow>
         (case find (\<lambda>(n, c). s = n @ '' ASC'') ordcols of
            Some (n, c) \<Rightarrow> Some (c, False)
          | None \<Rightarrow>
             (case find (\<lambda>(n, c). s = n @ '' DESC'') ordcols of
                Some (n, c) \<Rightarrow> Some (c, True)
              | None \<Rightarrow> None)))"

fun ordKey :: "ordcol \<Rightarrow> row \<Rightarrow> int \<times> string" where
  "ordKey (OText f) r = (0, col f r)"
| "ordKey OId r = (r_id r, [])"
| "ordKey OData r = (int (r_data_solicitacao r), [])"
| "ordKey OCreated r = (int (r_created_at r), [])"
| "ordKey OUpdated r = (int (r_updated_at r), [])"

definition orderRows :: "ordcol \<times> bool \<Rightarrow> row list \<Rightarrow> row list" where
  "orderRows ob rs =
     (case ob of (c, desc) \<Rightarrow> if desc then rev (sort_key (ordKey c) rs) else sort_key (ordKey c) rs)"

subsection \<open>Executing statements\<close>

record select_stmt =
  sel_conds :: "cond list"
  sel_order :: string
  sel_limit :: "(nat \<times> nat) option"
  sel_params :: "param list"

text \<open>The text the repository sends for a list query and for a count query.\<close>

definition whereSql :: "cond list \<Rightarrow> string" where
  "whereSql conds = (if conds \<noteq> [] then '' WHERE '' @ joinAnd (map condSql conds) else [])"


definition countSql :: "cond list \<Rightarrow> string" where
  "countSql conds = ''SELECT COUNT(*) as total FROM solicitacoes'' @ whereSql conds"

definition badBind :: pgerror where
  "badBind = PgError ''bind message does not match the statement'' ''08P01''"

definition execSelect :: "select_stmt \<Rightarrow> db \<Rightarrow> pgerror + row list" where
  "execSelect q d =
     (if \<not> list_all (condBound (sel_params q)) (sel_conds q) then Inl badBind
      else case parseOrder (sel_order q) of
        None \<Rightarrow> Inl (PgError ''syntax error'' ''42601'')
      | Some ob \<Rightarrow>
         (let rs = orderRows ob (whereRows (sel_conds q) (sel_params q) (db_rows d)) in
          case sel_limit q of
            None \<Rightarrow> Inr rs
          | Some (i, j) \<Rightarrow>
             (case (numParam (sel_params q) i, numParam (sel_params q) j) of
                (Some l, Some off) \<Rightarrow>
                  if l < 0 then Inl (PgError ''LIMIT must not be negative'' ''2201W'')
                  else if off < 0 then Inl (PgError ''OFFSET must not be negative'' ''2201X'')
                  else Inr (take (nat l) (drop (nat off) rs))
              | _ \<Rightarrow> Inl badBind)))"

text \<open>\<^verbatim>\<open>COUNT(*)\<close> is a \<^verbatim>\<open>bigint\<close>, which the driver hands over as decimal text.\<close>

definition execCount :: "cond list \<Rightarrow> param list \<Rightarrow> db \<Rightarrow> pgerror + string" where
  "execCount conds ps d =
     (if \<not> list_all (condBound ps) conds then Inl badBind
      else Inr (decimal (length (whereRows conds ps (db_rows d)))))"

definition badInteger :: pgerror where
  "badInteger = PgError ''invalid input syntax for type integer'' ''22P02''"

definition execSelectById :: "param \<Rightarrow> db \<Rightarrow> pgerror + row list" where
  "execSelectById p d =
     (case p of
        PNum i \<Rightarrow> Inr (filter (\<lambda>r. r_id r = i) (db_rows d))
      | _ \<Rightarrow> Inl badInteger)"

definition tooLongErr :: pgerror where
  "tooLongErr = PgError ''value too long for type character varying'' ''22001''"

text \<open>\<^verbatim>\<open>INSERT ... RETURNING id\<close>: the sequence gives the id, both timestamps default to now.\<close>

definition execInsert ::
  "string \<Rightarrow> string \<Rightarrow> string \<Rightarrow> string \<Rightarrow> nat \<Rightarrow> string \<Rightarrow> nat \<Rightarrow> db \<Rightarrow> (pgerror + int list) \<times> db" where
  "execInsert nome dept centro equip dat st now d =
     (if fits Nome_pessoa nome \<and> fits Setor dept \<and> fits Centro_custo centro \<and> fits Status st
      then (Inr [db_seq d],
            d\<lparr>db_rows := db_rows d @
                 [\<lparr>r_id = db_seq d, r_nome_pessoa = nome, r_setor = dept, r_centro_custo = centro,
                   r_equipamento = equip, r_data_solicitacao = dat, r_status = st,
                   r_created_at = now, r_updated_at = now\<rparr>],
               db_seq := db_seq d + 1\<rparr>)
      else (Inl tooLongErr, d\<lparr>db_seq := db_seq d + 1\<rparr>))"

text \<open>\<^verbatim>\<open>UPDATE ... SET f1 = $1, ..., updated_at = $k WHERE id = $k+1\<close>; the result is \<^verbatim>\<open>rowCount\<close>.\<close>

definition applySets :: "(field \<times> string) list \<Rightarrow> nat \<Rightarrow> row \<Rightarrow> row" where
  "applySets sets now r = (foldl (\<lambda>r' (f, v). set_col f v r') r sets)\<lparr>r_updated_at := now\<rparr>"

definition execUpdate :: "(field \<times> string) list \<Rightarrow> nat \<Rightarrow> param \<Rightarrow> db \<Rightarrow> (pgerror + nat) \<times> db" where
  "execUpdate sets now p d =
     (case p of
        PNum i \<Rightarrow>
          (let hit = filter (\<lambda>r. r_id r = i) (db_rows d) in
           if hit \<noteq> [] \<and> \<not> list_all (\<lambda>(f, v). fits f v) sets then (Inl tooLongErr, d)
           else (Inr (length hit),
                 d\<lparr>db_rows := map (\<lambda>r. if r_id r = i then applySets sets now r else r) (db_rows d)\<rparr>))
      | _ \<Rightarrow> (Inl badInteger, d))"

definition execDelete :: "param \<Rightarrow> db \<Rightarrow> (pgerror + nat) \<times> db" where
  "execDelete p d =
     (case p of
        PNum i \<Rightarrow>
          (Inr (length (filter (\<lambda>r. r_id r = i) (db_rows d))),
           d\<lparr>db_rows := filter (\<lambda>r. r_id r \<noteq> i) (db_rows d)\<rparr>)
      | _ \<Rightarrow> (Inl badInteger, d))"


section \<open>Floating point\<close>





section \<open>SolicitacaoModel\<close>

text \<open>
  Messages of the errors the model throws:
  \<open>CampoObrigatorio f\<close> is \<^verbatim>\<open>Campo obrigatorio nao informado: <f>\<close>,
  \<open>ErroInserir\<close> is \<^verbatim>\<open>Erro ao inserir solicitacao no banco de dados\<close>,
  \<open>ErroSalvar m\<close> is \<^verbatim>\<open>Erro ao salvar solicitacao: <m>\<close>,
  \<open>ErroBuscarLista\<close> is \<^verbatim>\<open>Erro ao buscar solicitacoes no banco de dados\<close>,
  \<open>ErroBuscar\<close> is \<^verbatim>\<open>Erro ao buscar solicitacao no banco de dados\<close>,
  \<open>NenhumCampo\<close> is \<^verbatim>\<open>Nenhum campo para atualizar foi fornecido\<close>,
  \<open>SemLinha\<close> is \<^verbatim>\<open>Solicitacao nao encontrada ou nenhuma alteracao foi feita\<close>,
  \<open>ErroAtualizar m\<close> is \<^verbatim>\<open>Erro ao atualizar solicitacao: <m>\<close>,
  \<open>NaoEncontrada\<close> is \<^verbatim>\<open>Solicitacao nao encontrada\<close>,
  \<open>ErroExcluir\<close> is \<^verbatim>\<open>Erro ao excluir solicitacao do banco de dados\<close>,
  \<open>ErroContar\<close> is \<^verbatim>\<open>Erro ao contar solicitacoes no banco de dados\<close>,
  \<open>ErroEstatisticas\<close> is \<^verbatim>\<open>Erro ao buscar estatisticas no banco de dados\<close>,
  \<open>Driver m\<close> is the message of a store error.
  An error object carries its message and the optional properties \<^verbatim>\<open>code\<close> and
  \<^verbatim>\<open>statusCode\<close>; \<^verbatim>\<open>new Error(m)\<close> has neither.
\<close>

datatype errtext =
    CampoObrigatorio field | ErroInserir | ErroSalvar errtext | ErroBuscarLista | ErroBuscar
  | NenhumCampo | SemLinha | ErroAtualizar errtext | NaoEncontrada | ErroExcluir | ErroContar
  | ErroEstatisticas | Driver string

record jserror =
  e_message :: errtext
  e_code :: "string option"
  e_statusCode :: "nat option"

definition newError :: "errtext \<Rightarrow> jserror" where
  "newError m = \<lparr>e_message = m, e_code = None, e_statusCode = None\<rparr>"

text \<open>The error object the driver throws for a store error.\<close>

fun thrown :: "pgerror \<Rightarrow> jserror" where
  "thrown (PgError m c) = \<lparr>e_message = Driver m, e_code = Some c, e_statusCode = None\<rparr>"

text \<open>\<^verbatim>\<open>data[field]\<close> where the field is known to be a string.\<close>

definition fieldText :: "payload \<Rightarrow> field \<Rightarrow> string" where
  "fieldText data f = (case text_of data f of None \<Rightarrow> [] | Some s \<Rightarrow> s)"

definition idParam :: "int option \<Rightarrow> param" where
  "idParam i = (case i of None \<Rightarrow> PNaN | Some n \<Rightarrow> PNum n)"

text \<open>
  Each method is a \<^verbatim>\<open>try\<close> block and a \<^verbatim>\<open>catch\<close> that throws a new error; \<open>create_try\<close>,
  \<open>update_try\<close> and \<open>delete_try\<close> are the \<^verbatim>\<open>try\<close> blocks of the methods that throw errors of
  their own. In \<open>create_try\<close> the four fields are non-blank strings once the loop over the
  required fields has passed.
\<close>

definition create_try :: "payload \<Rightarrow> nat \<Rightarrow> db \<Rightarrow> (jserror + int) \<times> db" where
  "create_try data now d =
     (case find (\<lambda>f. blank (text_of data f)) required of
        Some f \<Rightarrow> (Inl (newError (CampoObrigatorio f)), d)
      | None \<Rightarrow>
         (case execInsert (trim (fieldText data Nome_pessoa)) (trim (fieldText data Setor))
                 (trim (fieldText data Centro_custo)) (trim (fieldText data Equipamento))
                 (case data_solicitacao data of None \<Rightarrow> now | Some t \<Rightarrow> t)
                 (case text_of data Status of
                    None \<Rightarrow> ''Pendente''
                  | Some st \<Rightarrow> if st \<noteq> [] then st else ''Pendente'')
                 now d of
            (Inl e, d') \<Rightarrow> (Inl (thrown e), d')
          | (Inr ids, d') \<Rightarrow>
             (case ids of
                i # _ \<Rightarrow> (Inr i, d')
              | [] \<Rightarrow> (Inl (newError ErroInserir), d'))))"

definition Model_create :: "payload \<Rightarrow> nat \<Rightarrow> db \<Rightarrow> (jserror + int) \<times> db" where
  "Model_create data now d =
     (case create_try data now d of
        (Inl error, d') \<Rightarrow> (Inl (newError (ErroSalvar (e_message error))), d')
      | (Inr i, d') \<Rightarrow> (Inr i, d'))"

record filters =
  f_status :: "string option"
  f_setor :: "string option"
  f_search :: "string option"

definition getAll_stmt :: "filters \<Rightarrow> string option \<Rightarrow> int option \<Rightarrow> int \<Rightarrow> select_stmt" where
  "getAll_stmt fs orderBy limit offset =
     (let conditions = []; params = []; paramIndex = 1;
          (conditions, params, paramIndex) =
             (case f_status fs of
                Some v \<Rightarrow> if v \<noteq> [] then (conditions @ [Eq Status paramIndex], params @ [PStr v], paramIndex + 1)
                          else (conditions, params, paramIndex)
              | None \<Rightarrow> (conditions, params, paramIndex));
          (conditions, params, paramIndex) =
             (case f_setor fs of
                Some v \<Rightarrow> if v \<noteq> [] then (conditions @ [Eq Setor paramIndex], params @ [PStr v], paramIndex + 1)
                          else (conditions, params, paramIndex)
              | None \<Rightarrow> (conditions, params, paramIndex));
          (conditions, params, paramIndex) =
             (case f_search fs of
                Some v \<Rightarrow> if v \<noteq> []
                          then (conditions @ [Or (ILike Nome_pessoa paramIndex) (ILike Equipamento paramIndex)],
                                params @ [PStr (''%'' @ v @ ''%'')], paramIndex + 1)
                          else (conditions, params, paramIndex)
              | None \<Rightarrow> (conditions, params, paramIndex));
          order = (case orderBy of None \<Rightarrow> ''data_solicitacao DESC'' | Some ob \<Rightarrow> ob)
      in case limit of
           None \<Rightarrow> \<lparr>sel_conds = conditions, sel_order = order, sel_limit = None, sel_params = params\<rparr>
         | Some l \<Rightarrow>
            if l \<noteq> 0
            then \<lparr>sel_conds = conditions, sel_order = order,
                  sel_limit = Some (paramIndex, paramIndex + 1),
                  sel_params = params @ [PNum l, PNum offset]\<rparr>
            else \<lparr>sel_conds = conditions, sel_order = order, sel_limit = None, sel_params = params\<rparr>)"

definition Model_getAll :: "filters \<Rightarrow> string option \<Rightarrow> int option \<Rightarrow> int \<Rightarrow> db \<Rightarrow> jserror + row list" where
  "Model_getAll fs orderBy limit offset d =
     (case execSelect (getAll_stmt fs orderBy limit offset) d of
        Inl e \<Rightarrow> Inl (newError ErroBuscarLista)
      | Inr rs \<Rightarrow> Inr rs)"

definition Model_getById :: "int option \<Rightarrow> db \<Rightarrow> jserror + row option" where
  "Model_getById i d =
     (case execSelectById (idParam i) d of
        Inl e \<Rightarrow> Inl (newError ErroBuscar)
      | Inr rs \<Rightarrow> Inr (case rs of [] \<Rightarrow> None | r # _ \<Rightarrow> Some r))"

definition updateFields :: "payload \<Rightarrow> (field \<times> string) list" where
  "updateFields data =
     concat (map (\<lambda>f. case text_of data f of None \<Rightarrow> [] | Some v \<Rightarrow> [(f, v)]) allowedFields)"

definition update_try :: "int option \<Rightarrow> payload \<Rightarrow> nat \<Rightarrow> db \<Rightarrow> (jserror + bool) \<times> db" where
  "update_try i data now d =
     (if updateFields data = [] then (Inl (newError NenhumCampo), d)
      else case execUpdate (updateFields data) now (idParam i) d of
        (Inl e, d') \<Rightarrow> (Inl (thrown e), d')
      | (Inr rowCount, d') \<Rightarrow>
          if rowCount > 0 then (Inr True, d') else (Inl (newError SemLinha), d'))"

definition Model_update :: "int option \<Rightarrow> payload \<Rightarrow> nat \<Rightarrow> db \<Rightarrow> (jserror + bool) \<times> db" where
  "Model_update i data now d =
     (case update_try i data now d of
        (Inl error, d') \<Rightarrow> (Inl (newError (ErroAtualizar (e_message error))), d')
      | (Inr ok, d') \<Rightarrow> (Inr ok, d'))"

definition Model_updateStatus :: "int option \<Rightarrow> string option \<Rightarrow> nat \<Rightarrow> db \<Rightarrow> (jserror + bool) \<times> db" where
  "Model_updateStatus i st now d =
     Model_update i \<lparr>text_of = (\<lambda>f. if f = Status then st else None), data_solicitacao = None\<rparr> now d"

definition delete_try :: "int option \<Rightarrow> db \<Rightarrow> (jserror + bool) \<times> db" where
  "delete_try i d =
     (case execDelete (idParam i) d of
        (Inl e, d') \<Rightarrow> (Inl (thrown e), d')
      | (Inr rowCount, d') \<Rightarrow>
          if rowCount > 0 then (Inr True, d') else (Inl (newError NaoEncontrada), d'))"

definition Model_delete :: "int option \<Rightarrow> db \<Rightarrow> (jserror + bool) \<times> db" where
  "Model_delete i d =
     (case delete_try i d of
        (Inl error, d') \<Rightarrow> (Inl (newError ErroExcluir), d')
      | (Inr ok, d') \<Rightarrow> (Inr ok, d'))"

definition count_stmt :: "filters \<Rightarrow> cond list \<times> param list" where
  "count_stmt fs =
     (let conditions = []; params = []; paramIndex = 1;
          (conditions, params, paramIndex) =
             (case f_status fs of
                Some v \<Rightarrow> if v \<noteq> [] then (conditions @ [Eq Status paramIndex], params @ [PStr v], paramIndex + 1)
                          else (conditions, params, paramIndex)
              | None \<Rightarrow> (conditions, params, paramIndex));
          (conditions, params, paramIndex) =
             (case f_setor fs of
                Some v \<Rightarrow> if v \<noteq> [] then (conditions @ [Eq Setor paramIndex], params @ [PStr v], paramIndex + 1)
                          else (conditions, params, paramIndex)
              | None \<Rightarrow> (conditions, params, paramIndex));
          (conditions, params, paramIndex) =
             (case f_search fs of
                Some v \<Rightarrow> if v \<noteq> []
                          then (conditions @ [Or (ILike Nome_pessoa paramIndex) (ILike Equipamento paramIndex)],
                                params @ [PStr (''%'' @ v @ ''%'')], (paramIndex :: nat) + 1)
                          else (conditions, params, paramIndex)
              | None \<Rightarrow> (conditions, params, paramIndex))
      in (conditions, params))"

definition Model_count :: "filters \<Rightarrow> db \<Rightarrow> jserror + int option" where
  "Model_count fs d =
     (case count_stmt fs of (conditions, params) \<Rightarrow>
        (case execCount conditions params d of
           Inl e \<Rightarrow> Inl (newError ErroContar)
         | Inr txt \<Rightarrow> Inr (parseInt txt)))"


section \<open>Responses and the error middleware\<close>

text \<open>
  A response is the HTTP status and the JSON envelope (its timestamp left out).
  Success messages: \<open>Sucesso\<close> is the default \<^verbatim>\<open>Operacao realizada com sucesso\<close>, the others are
  the messages of create, update, status update and delete. Error messages of the handlers:
  \<open>IdInvalido\<close> (\<^verbatim>\<open>ID da solicitacao e obrigatorio e deve ser um numero\<close>),
  \<open>NaoEncontrada404\<close> (\<^verbatim>\<open>Solicitacao nao encontrada\<close>), \<open>DadosInvalidos\<close>,
  \<open>StatusObrigatorio\<close>, \<open>StatusInvalido400\<close>; of the error middleware: \<open>Duplicados\<close>,
  \<open>Indisponivel\<close>, \<open>ErroInterno\<close> (\<^verbatim>\<open>Erro interno do servidor\<close>) and \<open>Thrown m\<close>, the
  message of the error it received.
\<close>

record pagination =
  current_page :: int
  total_pages :: "int option"
  total_items :: "int option"
  items_per_page :: int
  has_previous :: bool
  has_next :: bool

record stat =
  st_status :: string
  quantidade :: "int option"
  percentual :: "int option"

datatype okmsg = Sucesso | Criada | Atualizada | StatusAtualizado | Excluida

datatype errmsg =
    IdInvalido | NaoEncontrada404 | DadosInvalidos | StatusObrigatorio | StatusInvalido400
  | Duplicados | Indisponivel | ErroInterno | Thrown errtext

datatype content =
    Null | Solicitacao row | NewId int | Listing "row list" pagination | Stats "stat list" "int option"

datatype details = NoDetails | Errors "violation list" | ValidStatus "string list"

datatype envelope = Success okmsg content | Failure errmsg nat details

type_synonym response = "nat \<times> envelope"

text \<open>\<open>production\<close> is \<^verbatim>\<open>process.env.NODE_ENV === 'production'\<close>.\<close>

definition errorHandler :: "bool \<Rightarrow> jserror \<Rightarrow> response" where
  "errorHandler production error =
     (if e_code error = Some ''23505'' then (409, Failure Duplicados 409 NoDetails)
      else if e_code error = Some ''ECONNREFUSED'' \<or> e_code error = Some ''ENOTFOUND''
      then (503, Failure Indisponivel 503 NoDetails)
      else
        (let statusCode = (case e_statusCode error of
                             None \<Rightarrow> 500
                           | Some c \<Rightarrow> if c \<noteq> 0 then c else 500);
             msg = (if production then ErroInterno else Thrown (e_message error))
         in (statusCode, Failure msg statusCode NoDetails)))"

section \<open>SolicitacaoController\<close>

text \<open>
  A handler is a function of the request as it reaches the handler (path parameter, query or
  body, after the router's middleware), of the clock and of the store; it returns the
  response and, when it writes, the store afterwards. An error thrown in a handler goes to
  the error middleware.

  \<^verbatim>\<open>isNaN(id)\<close> for a string: the string is converted with \<^verbatim>\<open>Number\<close>, which accepts,
  between optional white space, nothing at all, a signed decimal literal or \<^verbatim>\<open>Infinity\<close>, or
  an unsigned hexadecimal, octal or binary literal.
\<close>

definition isDigit :: "char \<Rightarrow> bool" where
  "isDigit c = isRadixDigit 10 c"

definition dropSign :: "string \<Rightarrow> string" where
  "dropSign s = (case s of [] \<Rightarrow> [] | c # t \<Rightarrow> if c = CHR ''-'' \<or> c = CHR ''+'' then t else s)"

definition exponentPart :: "string \<Rightarrow> bool" where
  "exponentPart s =
     (case s of
        [] \<Rightarrow> True
      | c # t \<Rightarrow> (c = CHR ''e'' \<or> c = CHR ''E'') \<and> dropSign t \<noteq> [] \<and> list_all isDigit (dropSign t))"

definition decimalLiteral :: "string \<Rightarrow> bool" where
  "decimalLiteral s =
     (s = ''Infinity'' \<or>
      (let whole = takeWhile isDigit s; rest = dropWhile isDigit s
       in case rest of
            [] \<Rightarrow> whole \<noteq> []
          | c # t \<Rightarrow>
             if c = CHR ''.''
             then (whole \<noteq> [] \<or> takeWhile isDigit t \<noteq> []) \<and> exponentPart (dropWhile isDigit t)
             else whole \<noteq> [] \<and> exponentPart rest))"

definition prefixedLiteral :: "string \<Rightarrow> bool" where
  "prefixedLiteral s =
     (case s of
        a # b # t \<Rightarrow>
          a = CHR ''0'' \<and> t \<noteq> [] \<and>
          ((b = CHR ''x'' \<or> b = CHR ''X'') \<and> list_all (isRadixDigit 16) t \<or>
           (b = CHR ''o'' \<or> b = CHR ''O'') \<and> list_all (isRadixDigit 8) t \<or>
           (b = CHR ''b'' \<or> b = CHR ''B'') \<and> list_all (isRadixDigit 2) t)
      | _ \<Rightarrow> False)"

definition isNaN :: "string \<Rightarrow> bool" where
  "isNaN s = (let t = trim s in \<not> (t = [] \<or> prefixedLiteral t \<or> decimalLiteral (dropSign t)))"






definition Controller_getById :: "bool \<Rightarrow> string \<Rightarrow> db \<Rightarrow> response" where
  "Controller_getById production ident d =
     (if ident = [] \<or> isNaN ident then (400, Failure IdInvalido 400 NoDetails)
      else case Model_getById (parseInt ident) d of
        Inl e \<Rightarrow> errorHandler production e
      | Inr None \<Rightarrow> (404, Failure NaoEncontrada404 404 NoDetails)
      | Inr (Some r) \<Rightarrow> (200, Success Sucesso (Solicitacao r)))"

definition Controller_create :: "bool \<Rightarrow> payload \<Rightarrow> nat \<Rightarrow> db \<Rightarrow> response \<times> db" where
  "Controller_create production body now d =
     (let data = normalizeFields (sanitizeObject body);
          errors = validateData data False
      in if errors \<noteq> [] then ((400, Failure DadosInvalidos 400 (Errors errors)), d)
         else case Model_create data now d of
           (Inl e, d') \<Rightarrow> (errorHandler production e, d')
         | (Inr i, d') \<Rightarrow> ((201, Success Criada (NewId i)), d'))"

text \<open>
  The handlers that change a row first look it up. \<open>others\<close> is what other requests do to
  the store between that look-up and the changing statement (the identity when nothing
  interferes).
\<close>

definition Controller_update ::
  "bool \<Rightarrow> string \<Rightarrow> payload \<Rightarrow> nat \<Rightarrow> (db \<Rightarrow> db) \<Rightarrow> db \<Rightarrow> response \<times> db" where
  "Controller_update production ident body now others d =
     (if ident = [] \<or> isNaN ident then ((400, Failure IdInvalido 400 NoDetails), d)
      else case Model_getById (parseInt ident) d of
        Inl e \<Rightarrow> (errorHandler production e, d)
      | Inr None \<Rightarrow> ((404, Failure NaoEncontrada404 404 NoDetails), d)
      | Inr (Some solicitacao) \<Rightarrow>
         (let data = normalizeFields (sanitizeObject body);
              errors = validateData data True
          in if errors \<noteq> [] then ((400, Failure DadosInvalidos 400 (Errors errors)), d)
             else case Model_update (parseInt ident) data now (others d) of
               (Inl e, d') \<Rightarrow> (errorHandler production e, d')
             | (Inr ok, d') \<Rightarrow> ((200, Success Atualizada Null), d')))"

definition Controller_updateStatus ::
  "bool \<Rightarrow> string \<Rightarrow> string option \<Rightarrow> nat \<Rightarrow> (db \<Rightarrow> db) \<Rightarrow> db \<Rightarrow> response \<times> db" where
  "Controller_updateStatus production ident st now others d =
     (if ident = [] \<or> isNaN ident then ((400, Failure IdInvalido 400 NoDetails), d)
      else if \<not> truthy st then ((400, Failure StatusObrigatorio 400 NoDetails), d)
      else case Model_getById (parseInt ident) d of
        Inl e \<Rightarrow> (errorHandler production e, d)
      | Inr None \<Rightarrow> ((404, Failure NaoEncontrada404 404 NoDetails), d)
      | Inr (Some solicitacao) \<Rightarrow>
         (if st \<notin> Some ` set statusValidos
          then ((400, Failure StatusInvalido400 400 (ValidStatus statusValidos)), d)
          else case Model_updateStatus (parseInt ident) st now (others d) of
            (Inl e, d') \<Rightarrow> (errorHandler production e, d')
          | (Inr ok, d') \<Rightarrow> ((200, Success StatusAtualizado Null), d')))"

definition Controller_delete ::
  "bool \<Rightarrow> string \<Rightarrow> (db \<Rightarrow> db) \<Rightarrow> db \<Rightarrow> response \<times> db" where
  "Controller_delete production ident others d =
     (if ident = [] \<or> isNaN ident then ((400, Failure IdInvalido 400 NoDetails), d)
      else case Model_getById (parseInt ident) d of
        Inl e \<Rightarrow> (errorHandler production e, d)
      | Inr None \<Rightarrow> ((404, Failure NaoEncontrada404 404 NoDetails), d)
      | Inr (Some solicitacao) \<Rightarrow>
         (case Model_delete (parseInt ident) (others d) of
            (Inl e, d') \<Rightarrow> (errorHandler production e, d')
          | (Inr ok, d') \<Rightarrow> ((200, Success Excluida Null), d')))"






section \<open>Notions used in the statements\<close>

text \<open>The ten decimal digits.\<close>

definition isDecimalDigit :: "char \<Rightarrow> bool" where
  "isDecimalDigit c \<longleftrightarrow> 48 \<le> (of_char c :: nat) \<and> (of_char c :: nat) \<le> 57"

text \<open>The payload as the create and update handlers validate it.\<close>

definition prepare :: "payload \<Rightarrow> payload" where
  "prepare body = normalizeFields (sanitizeObject body)"


text \<open>A required field that is absent, or empty once sanitized and trimmed.\<close>

definition missingField :: "payload \<Rightarrow> field \<Rightarrow> bool" where
  "missingField body f =
     (case text_of body f of None \<Rightarrow> True | Some s \<Rightarrow> trim (sanitizeInput s) = [])"

text \<open>A required field that is absent or empty after trimming (no sanitizing).\<close>

definition absentOrEmpty :: "payload \<Rightarrow> field \<Rightarrow> bool" where
  "absentOrEmpty body f = (case text_of body f of None \<Rightarrow> True | Some s \<Rightarrow> trim s = [])"

text \<open>The violations that are not about a required field being missing.\<close>

definition otherViolations :: "payload \<Rightarrow> violation list" where
  "otherViolations data =
     (case text_of data Status of
        None \<Rightarrow> []
      | Some s \<Rightarrow> if s \<noteq> [] \<and> s \<notin> set statusValidos then [StatusInvalido] else [])
     @ tooLong data Nome_pessoa 255 @ tooLong data Setor 100 @ tooLong data Centro_custo 50"

text \<open>A payload that carries only a status, as \<^verbatim>\<open>updateStatus\<close> builds it.\<close>

definition statusOnly :: "string option \<Rightarrow> payload" where
  "statusOnly st = \<lparr>text_of = (\<lambda>f. if f = Status then st else None), data_solicitacao = None\<rparr>"


text \<open>The rows a filters record selects: status and department by equality, search by
  \<^verbatim>\<open>ILIKE\<close> of \<^verbatim>\<open>%search%\<close> on the requester name or on the equipment; an undefined or empty
  filter selects every row.\<close>

definition matches :: "filters \<Rightarrow> row \<Rightarrow> bool" where
  "matches fs r =
     ((case f_status fs of None \<Rightarrow> True | Some v \<Rightarrow> v = [] \<or> r_status r = v) \<and>
      (case f_setor fs of None \<Rightarrow> True | Some v \<Rightarrow> v = [] \<or> r_setor r = v) \<and>
      (case f_search fs of
         None \<Rightarrow> True
       | Some v \<Rightarrow> v = [] \<or> ilike (r_nome_pessoa r) (''%'' @ v @ ''%'')
                   \<or> ilike (r_equipamento r) (''%'' @ v @ ''%'')))"

text \<open>\<open>hasInfix x s\<close>: \<open>s\<close> occurs in \<open>x\<close> as a substring; \<open>hasInfixCI\<close> ignores case.\<close>

fun startsWith :: "string \<Rightarrow> string \<Rightarrow> bool" where
  "startsWith x [] = True"
| "startsWith [] (c # s) = False"
| "startsWith (a # x) (c # s) = (a = c \<and> startsWith x s)"

fun hasInfix :: "string \<Rightarrow> string \<Rightarrow> bool" where
  "hasInfix [] s = startsWith [] s"
| "hasInfix (a # x) s = (startsWith (a # x) s \<or> hasInfix x s)"

definition hasInfixCI :: "string \<Rightarrow> string \<Rightarrow> bool" where
  "hasInfixCI x s = hasInfix (map lowerChar x) (map lowerChar s)"

text \<open>A search text without the pattern characters \<^verbatim>\<open>%\<close>, \<^verbatim>\<open>_\<close> and backslash.\<close>

definition plain :: "string \<Rightarrow> bool" where
  "plain s = list_all (\<lambda>c. c \<noteq> CHR ''%'' \<and> c \<noteq> CHR ''_'' \<and> c \<noteq> CHR 0x5C) s"










section \<open>Example data\<close>

definition exampleRow :: row where
  "exampleRow =
     \<lparr>r_id = 1, r_nome_pessoa = ''JOAO DA SILVA'', r_setor = ''POLO JOINVILLE'',
      r_centro_custo = ''CC-1001'', r_equipamento = ''NOTEBOOK DELL INSPIRON 15'',
      r_data_solicitacao = 5, r_status = ''Pendente'', r_created_at = 5, r_updated_at = 5\<rparr>"

definition exampleDb :: db where
  "exampleDb = \<lparr>db_rows = [exampleRow], db_seq = 2\<rparr>"

definition wipe :: "db \<Rightarrow> db" where
  "wipe d = d\<lparr>db_rows := []\<rparr>"


definition badStatusPayload :: payload where
  "badStatusPayload =
     \<lparr>text_of = (\<lambda>f. if f = Setor then None else if f = Status then Some ''foo'' else Some ''Ana''),
      data_solicitacao = None\<rparr>"

definition bracketPayload :: payload where
  "bracketPayload =
     \<lparr>text_of = (\<lambda>f. if f = Equipamento then Some ''<>'' else if f = Status then None else Some ''Ana''),
      data_solicitacao = None\<rparr>"





definition underscoreFilters :: filters where
  "underscoreFilters = \<lparr>f_status = None, f_setor = None, f_search = Some ''_''\<rparr>"

section \<open>Facts about strings\<close>

lemma upper_mod: "n \<le> 122 \<Longrightarrow> (n - 32) mod 256 = n - (32::nat)"
  by (rule mod_less) arith

lemma of_char_upperChar:
  "(of_char (upperChar c) :: nat) =
     (if 97 \<le> (of_char c :: nat) \<and> (of_char c :: nat) \<le> 122 then of_char c - 32 else of_char c)"
  by (simp add: upperChar_def Let_def upper_mod)



lemma char_eq_code: "x = d \<longleftrightarrow> (of_char x :: nat) = of_char d"
  by simp

lemma isWhiteSpace_of_char:
  "isWhiteSpace c \<longleftrightarrow> (of_char c :: nat) \<in> {9, 10, 11, 12, 13, 32}"
  unfolding isWhiteSpace_def char_eq_code[of c] by simp

lemma isWhiteSpace_upperChar: "isWhiteSpace (upperChar c) = isWhiteSpace c"
  unfolding isWhiteSpace_of_char of_char_upperChar by auto




lemma not_leadingWs_dropWhile: "\<not> leadingWs (dropWhile isWhiteSpace s)"
  by (induction s) (simp_all add: leadingWs_def)

lemma dropWhile_ws_id: "\<not> leadingWs s \<Longrightarrow> dropWhile isWhiteSpace s = s"
  by (cases s) (simp_all add: leadingWs_def)

lemma leadingWs_rev_dropWhile:
  "\<not> leadingWs s \<Longrightarrow> \<not> leadingWs (rev (dropWhile isWhiteSpace (rev s)))"
proof (induction s rule: rev_induct)
  case Nil
  then show ?case by simp
next
  case (snoc x xs)
  show ?case
  proof (cases "isWhiteSpace x")
    case True
    with snoc show ?thesis by (cases xs) (simp_all add: leadingWs_def)
  next
    case False
    with snoc.prems show ?thesis by simp
  qed
qed

lemma trim_no_leading: "\<not> leadingWs (trim s)"
  by (simp add: trim_def leadingWs_rev_dropWhile not_leadingWs_dropWhile)

lemma trim_no_trailing: "\<not> trailingWs (trim s)"
  by (simp add: trim_def trailingWs_def not_leadingWs_dropWhile)

lemma trim_id: "\<not> leadingWs s \<Longrightarrow> \<not> trailingWs s \<Longrightarrow> trim s = s"
  by (simp add: trim_def trailingWs_def dropWhile_ws_id)


lemma trim_Nil: "trim [] = []"
  by (simp add: trim_def)



lemma normalizeString_Nil: "normalizeString [] = []"
  by (simp add: normalizeString_def trim_Nil toUpperCase_def)

lemma leadingWs_toUpperCase: "leadingWs (toUpperCase s) = leadingWs s"
  by (cases s) (simp_all add: leadingWs_def toUpperCase_def isWhiteSpace_upperChar)

lemma trailingWs_toUpperCase: "trailingWs (toUpperCase s) = trailingWs s"
  using leadingWs_toUpperCase[of "rev s"] by (simp add: trailingWs_def toUpperCase_def rev_map)

lemma normalizeString_no_leading: "\<not> leadingWs (normalizeString s)"
  by (simp add: normalizeString_def leadingWs_toUpperCase trim_no_leading)

lemma normalizeString_no_trailing: "\<not> trailingWs (normalizeString s)"
  by (simp add: normalizeString_def trailingWs_toUpperCase trim_no_trailing)

lemma trim_normalizeString: "trim (normalizeString s) = normalizeString s"
  by (rule trim_id[OF normalizeString_no_leading normalizeString_no_trailing])






lemma prepare_text:
  "f \<noteq> Status \<Longrightarrow>
   text_of (prepare body) f = map_option (\<lambda>s. normalizeString (sanitizeInput s)) (text_of body f)"
  by (cases "text_of body f")
     (simp_all add: prepare_def normalizeFields_def sanitizeObject_def truthy_def normalizeString_Nil)

lemma prepare_status: "text_of (prepare body) Status = map_option sanitizeInput (text_of body Status)"
  by (simp add: prepare_def normalizeFields_def sanitizeObject_def)

lemma prepare_data: "data_solicitacao (prepare body) = data_solicitacao body"
  by (simp add: prepare_def normalizeFields_def sanitizeObject_def)

section \<open>Text fields before storage\<close>


section \<open>Updates and deletes\<close>

lemma newError_sel [simp]:
  "e_message (newError m) = m" "e_code (newError m) = None" "e_statusCode (newError m) = None"
  by (simp_all add: newError_def)

lemma updateFields_statusOnly:
  "updateFields (statusOnly st) = (case st of None \<Rightarrow> [] | Some v \<Rightarrow> [(Status, v)])"
  by (cases st) (simp_all add: updateFields_def statusOnly_def allowedFields_def)

lemma map_untouched:
  "filter (\<lambda>r. r_id r = n) rs = [] \<Longrightarrow> map (\<lambda>r. if r_id r = n then g r else r) rs = rs"
  by (induction rs) (auto split: if_splits)

lemma db_rows_same: "d\<lparr>db_rows := db_rows d\<rparr> = d"
  by simp

lemma execUpdate_miss:
  "filter (\<lambda>r. r_id r = n) (db_rows d) = [] \<Longrightarrow> execUpdate sets now (PNum n) d = (Inr 0, d)"
  by (simp add: execUpdate_def map_untouched)

lemma execDelete_miss:
  "filter (\<lambda>r. r_id r = n) (db_rows d) = [] \<Longrightarrow> execDelete (PNum n) d = (Inr 0, d)"
proof -
  assume a: "filter (\<lambda>r. r_id r = n) (db_rows d) = []"
  then have "filter (\<lambda>r. r_id r \<noteq> n) (db_rows d) = db_rows d"
    by (induction "db_rows d") (auto simp: filter_empty_conv)
  with a show ?thesis by (simp add: execDelete_def)
qed


lemma Model_getById_hit:
  "filter (\<lambda>r. r_id r = n) (db_rows d) \<noteq> [] \<Longrightarrow> \<exists>r. Model_getById (Some n) d = Inr (Some r)"
  by (cases "filter (\<lambda>r. r_id r = n) (db_rows d)")
     (simp_all add: Model_getById_def execSelectById_def idParam_def)

lemma delete_try_miss:
  "filter (\<lambda>r. r_id r = n) (db_rows d) = [] \<Longrightarrow>
   delete_try (Some n) d = (Inl (newError NaoEncontrada), d)"
  by (simp add: delete_try_def idParam_def execDelete_miss)

lemma update_try_miss:
  "filter (\<lambda>r. r_id r = n) (db_rows d) = [] \<Longrightarrow> updateFields data \<noteq> [] \<Longrightarrow>
   update_try (Some n) data now d = (Inl (newError SemLinha), d)"
  by (simp add: update_try_def idParam_def execUpdate_miss)

lemma Model_delete_miss:
  "filter (\<lambda>r. r_id r = n) (db_rows d) = [] \<Longrightarrow>
   Model_delete (Some n) d = (Inl (newError ErroExcluir), d)"
  by (simp add: Model_delete_def delete_try_def idParam_def execDelete_miss)

lemma Model_update_miss:
  "filter (\<lambda>r. r_id r = n) (db_rows d) = [] \<Longrightarrow> updateFields data \<noteq> [] \<Longrightarrow>
   Model_update (Some n) data now d = (Inl (newError (ErroAtualizar SemLinha)), d)"
  by (simp add: Model_update_def update_try_def idParam_def execUpdate_miss)

lemma errorHandler_newError:
  "errorHandler production (newError m) =
     (500, Failure (if production then ErroInterno else Thrown m) 500 NoDetails)"
  by (simp add: errorHandler_def newError_def)

text \<open>
  C2, as amended. The repository has no \<^verbatim>\<open>NotFoundError\<close>: when the changing statement of a
  well-formed update, status update or delete affects no row (the row was there at the
  handler's look-up and is gone when the statement runs), the repository notices it and
  throws a plain \<^verbatim>\<open>Error\<close> that has neither a status code nor an error code, the error
  middleware answers 500, and the store is left as it was. It is never reported as a
  success.
\<close>

theorem zero_rows_is_500:
  assumes "ident \<noteq> []" and "\<not> isNaN ident" and "parseInt ident = Some n"
    and "filter (\<lambda>r. r_id r = n) (db_rows d) \<noteq> []"
    and "filter (\<lambda>r. r_id r = n) (db_rows (others d)) = []"
  shows
    "delete_try (Some n) (others d) = (Inl (newError NaoEncontrada), others d) \<and>
     Model_delete (Some n) (others d) = (Inl (newError ErroExcluir), others d) \<and>
     e_statusCode (newError ErroExcluir) = None \<and> e_code (newError ErroExcluir) = None \<and>
     Controller_delete production ident others d =
       ((500, Failure (if production then ErroInterno else Thrown ErroExcluir) 500 NoDetails),
        others d) \<and>
     (updateFields data \<noteq> [] \<longrightarrow>
        update_try (Some n) data now (others d) = (Inl (newError SemLinha), others d) \<and>
        Model_update (Some n) data now (others d) =
          (Inl (newError (ErroAtualizar SemLinha)), others d) \<and>
        e_statusCode (newError (ErroAtualizar SemLinha)) = None \<and>
        e_code (newError (ErroAtualizar SemLinha)) = None) \<and>
     (validateData (prepare body) True = [] \<and> updateFields (prepare body) \<noteq> [] \<longrightarrow>
        Controller_update production ident body now others d =
          ((500, Failure (if production then ErroInterno else Thrown (ErroAtualizar SemLinha))
                   500 NoDetails), others d)) \<and>
     (st \<in> Some ` set statusValidos \<longrightarrow>
        Controller_updateStatus production ident st now others d =
          ((500, Failure (if production then ErroInterno else Thrown (ErroAtualizar SemLinha))
                   500 NoDetails), others d))"
proof -
  from assms(4) obtain r where hit: "Model_getById (Some n) d = Inr (Some r)"
    using Model_getById_hit by blast
  have del: "Model_delete (Some n) (others d) = (Inl (newError ErroExcluir), others d)"
    using assms(5) by (rule Model_delete_miss)
  have upd: "Model_update (Some n) x now (others d) =
               (Inl (newError (ErroAtualizar SemLinha)), others d)" if "updateFields x \<noteq> []" for x
    using assms(5) that by (rule Model_update_miss)
  have c_del: "Controller_delete production ident others d =
       ((500, Failure (if production then ErroInterno else Thrown ErroExcluir) 500 NoDetails),
        others d)"
    using assms(1-3) hit del by (simp add: Controller_delete_def errorHandler_newError)
  have c_upd: "Controller_update production ident body now others d =
          ((500, Failure (if production then ErroInterno else Thrown (ErroAtualizar SemLinha))
                   500 NoDetails), others d)"
    if "validateData (prepare body) True = []" "updateFields (prepare body) \<noteq> []"
    using assms(1-3) hit that upd[OF that(2)]
    by (simp add: Controller_update_def errorHandler_newError prepare_def Let_def)
  have c_st: "Controller_updateStatus production ident st now others d =
          ((500, Failure (if production then ErroInterno else Thrown (ErroAtualizar SemLinha))
                   500 NoDetails), others d)"
    if "st \<in> Some ` set statusValidos"
  proof -
    from that obtain v where v: "st = Some v" "v \<in> set statusValidos" by auto
    then have "v \<noteq> []" by (auto simp: statusValidos_def)
    with v have t: "truthy st" by (simp add: truthy_def)
    have "updateFields (statusOnly st) \<noteq> []"
      using v by (simp add: updateFields_statusOnly)
    from upd[OF this] have "Model_updateStatus (Some n) st now (others d) =
               (Inl (newError (ErroAtualizar SemLinha)), others d)"
      by (simp add: Model_updateStatus_def statusOnly_def)
    with assms(1-3) hit t that show ?thesis
      by (simp add: Controller_updateStatus_def errorHandler_newError)
  qed
  show ?thesis
    using del c_del upd c_upd c_st delete_try_miss[OF assms(5)] update_try_miss[OF assms(5)]
    by simp
qed

theorem zero_rows_is_500_witness:
  "Controller_delete True ''1'' wipe exampleDb =
     ((500, Failure ErroInterno 500 NoDetails), wipe exampleDb) \<and>
   Controller_update False ''1'' (statusOnly (Some ''Comprado'')) 9 wipe exampleDb =
     ((500, Failure (Thrown (ErroAtualizar SemLinha)) 500 NoDetails), wipe exampleDb) \<and>
   Controller_updateStatus False ''1'' (Some ''Comprado'') 9 wipe exampleDb =
     ((500, Failure (Thrown (ErroAtualizar SemLinha)) 500 NoDetails), wipe exampleDb)"
proof -
  have h1: "''1'' \<noteq> []" by simp
  have h2: "\<not> isNaN ''1''" by code_simp
  have h3: "parseInt ''1'' = Some 1" by code_simp
  have h4: "filter (\<lambda>r. r_id r = 1) (db_rows exampleDb) \<noteq> []" by code_simp
  have h5: "filter (\<lambda>r. r_id r = 1) (db_rows (wipe exampleDb)) = []" by code_simp
  have h6: "validateData (prepare (statusOnly (Some ''Comprado''))) True = []" by code_simp
  have h7: "updateFields (prepare (statusOnly (Some ''Comprado''))) \<noteq> []" by code_simp
  have h8: "Some ''Comprado'' \<in> Some ` set statusValidos" by (simp add: statusValidos_def)
  show ?thesis
    using zero_rows_is_500[where ident = "''1''" and n = 1 and d = exampleDb and others = wipe
            and production = True and data = "statusOnly (Some ''Comprado'')" and now = 9
            and body = "statusOnly (Some ''Comprado'')" and st = "Some ''Comprado''",
            OF h1 h2 h3 h4 h5]
          zero_rows_is_500[where ident = "''1''" and n = 1 and d = exampleDb and others = wipe
            and production = False and data = "statusOnly (Some ''Comprado'')" and now = 9
            and body = "statusOnly (Some ''Comprado'')" and st = "Some ''Comprado''",
            OF h1 h2 h3 h4 h5]
          h6 h7 h8
    by simp
qed

text \<open>
  C2 as stated fails: the row with id 1 is found by the look-up, is deleted by another request
  before the \<^verbatim>\<open>DELETE\<close> runs, the statement affects no row, and the client receives 500, not
  404.
\<close>

theorem zero_rows_counterexample:
  "Model_getById (Some 1) exampleDb = Inr (Some exampleRow) \<and>
   execDelete (PNum 1) (wipe exampleDb) = (Inr 0, wipe exampleDb) \<and>
   Model_delete (Some 1) (wipe exampleDb) = (Inl (newError ErroExcluir), wipe exampleDb) \<and>
   fst (Controller_delete True ''1'' wipe exampleDb) = (500, Failure ErroInterno 500 NoDetails) \<and>
   fst (fst (Controller_delete True ''1'' wipe exampleDb)) \<noteq> 404"
  by code_simp


section \<open>Validation of a create payload\<close>

lemma toUpperCase_Nil_iff: "toUpperCase s = [] \<longleftrightarrow> s = []"
  by (simp add: toUpperCase_def)

lemma normalizeString_Nil_iff: "normalizeString s = [] \<longleftrightarrow> trim s = []"
  by (simp add: normalizeString_def toUpperCase_Nil_iff)

lemma blank_prepare:
  "f \<noteq> Status \<Longrightarrow> blank (text_of (prepare body) f) = missingField body f"
  by (cases "text_of body f")
     (simp_all add: prepare_text blank_def missingField_def trim_normalizeString
        normalizeString_Nil_iff)

lemma validateData_create:
  "validateData (prepare body) False =
     map Obrigatorio (filter (missingField body) required) @ otherViolations (prepare body)"
  by (simp add: validateData_def otherViolations_def required_def blank_prepare)

text \<open>
  C3, as amended. For every create payload (fields are strings or absent), validation yields
  one required-field message for each of the four fields that is absent or empty once
  sanitized (trimmed, angle brackets stripped, trimmed), in field order and ahead of every
  other message; the only other messages are the one for an invalid status and those for
  fields longer than their maximum. When at least one field is missing the handler answers
  400 with the whole list and leaves the store alone; when there are no other violations the
  list has exactly as many messages as missing fields.
\<close>

theorem create_lists_missing_fields:
  "validateData (prepare body) False =
     map Obrigatorio (filter (missingField body) required) @ otherViolations (prepare body) \<and>
   (filter (missingField body) required \<noteq> [] \<longrightarrow>
      Controller_create production body now d =
        ((400, Failure DadosInvalidos 400 (Errors (validateData (prepare body) False))), d)) \<and>
   (otherViolations (prepare body) = [] \<longrightarrow>
      length (validateData (prepare body) False) = length (filter (missingField body) required)) \<and>
   set (otherViolations (prepare body)) \<subseteq>
     {StatusInvalido, MaxLen Nome_pessoa 255, MaxLen Setor 100, MaxLen Centro_custo 50}"
proof -
  have v: "validateData (prepare body) False =
     map Obrigatorio (filter (missingField body) required) @ otherViolations (prepare body)"
    by (rule validateData_create)
  have c: "Controller_create production body now d =
        ((400, Failure DadosInvalidos 400 (Errors (validateData (prepare body) False))), d)"
    if "filter (missingField body) required \<noteq> []"
    using that v by (simp add: Controller_create_def Let_def prepare_def)
  have s: "set (otherViolations (prepare body)) \<subseteq>
     {StatusInvalido, MaxLen Nome_pessoa 255, MaxLen Setor 100, MaxLen Centro_custo 50}"
    by (auto simp: otherViolations_def tooLong_def split: option.splits if_splits)
  show ?thesis using v c s by simp
qed

theorem create_lists_missing_fields_witness:
  "filter (missingField badStatusPayload) required = [Setor] \<and>
   Controller_create False badStatusPayload 9 exampleDb =
     ((400, Failure DadosInvalidos 400 (Errors [Obrigatorio Setor, StatusInvalido])), exampleDb)"
proof -
  have h1: "filter (missingField badStatusPayload) required = [Setor]" by code_simp
  have h2: "otherViolations (prepare badStatusPayload) = [StatusInvalido]" by code_simp
  show ?thesis
    using create_lists_missing_fields[of badStatusPayload False 9 exampleDb] h1 h2 by simp
qed

text \<open>
  C3 as stated fails in two ways: with \<^verbatim>\<open>setor\<close> missing and an invalid status there are two
  messages for one missing field; and a field made of angle brackets is not empty after
  trimming, yet is reported as missing.
\<close>

theorem create_messages_counterexample:
  "filter (absentOrEmpty badStatusPayload) required = [Setor] \<and>
   fst (Controller_create False badStatusPayload 9 exampleDb) =
     (400, Failure DadosInvalidos 400 (Errors [Obrigatorio Setor, StatusInvalido])) \<and>
   filter (absentOrEmpty bracketPayload) required = [] \<and>
   fst (Controller_create False bracketPayload 9 exampleDb) =
     (400, Failure DadosInvalidos 400 (Errors [Obrigatorio Equipamento]))"
  by code_simp

section \<open>Reading decimal text\<close>

lemma digit_char: "(d::nat) < 10 \<Longrightarrow> (of_char (char_of (48 + d)) :: nat) = 48 + d"
  by simp

lemma digitVal_digit: "(d::nat) < 10 \<Longrightarrow> digitVal (char_of (48 + d)) = Some d"
  by (simp add: digitVal_def Let_def)

lemma isDecimalDigit_digit: "(d::nat) < 10 \<Longrightarrow> isDecimalDigit (char_of (48 + d))"
  by (simp add: isDecimalDigit_def)

lemma decimal_digits: "list_all isDecimalDigit (decimal n)"
proof (induction n rule: decimal.induct)
  case (1 n)
  show ?case
  proof (cases "n < 10")
    case True
    then show ?thesis by (subst decimal.simps) (simp add: isDecimalDigit_digit)
  next
    case False
    then have "list_all isDecimalDigit (decimal (n div 10))" by (rule 1)
    moreover have "isDecimalDigit (char_of (48 + n mod 10))"
      by (rule isDecimalDigit_digit) simp
    ultimately show ?thesis using False by (subst decimal.simps) simp
  qed
qed

lemma decimal_not_Nil: "decimal n \<noteq> []"
  by (subst decimal.simps) simp

lemma digitsValue_snoc:
  "digitsValue R (ds @ [c]) = digitsValue R ds * R + (case digitVal c of None \<Rightarrow> 0 | Some d \<Rightarrow> d)"
  by (simp add: digitsValue_def)

lemma digitsValue_decimal: "digitsValue 10 (decimal n) = n"
proof (induction n rule: decimal.induct)
  case (1 n)
  show ?case
  proof (cases "n < 10")
    case True
    then show ?thesis
      by (subst decimal.simps) (simp add: digitsValue_def digitVal_digit)
  next
    case False
    then have "digitsValue 10 (decimal (n div 10)) = n div 10" by (rule 1)
    moreover have "digitVal (char_of (48 + n mod 10)) = Some (n mod 10)"
      by (rule digitVal_digit) simp
    ultimately show ?thesis using False
      by (subst decimal.simps) (simp add: digitsValue_snoc)
  qed
qed

lemma isDecimalDigit_props:
  assumes "isDecimalDigit c"
  shows "\<not> isWhiteSpace c" "c \<noteq> CHR ''-''" "c \<noteq> CHR ''+''" "c \<noteq> CHR ''x''" "c \<noteq> CHR ''X''"
    "isRadixDigit 10 c"
proof -
  show "\<not> isWhiteSpace c"
    using assms unfolding isWhiteSpace_of_char isDecimalDigit_def by auto
  show "c \<noteq> CHR ''-''" "c \<noteq> CHR ''+''" "c \<noteq> CHR ''x''" "c \<noteq> CHR ''X''"
    using assms unfolding isDecimalDigit_def by auto
  show "isRadixDigit 10 c"
    using assms unfolding isDecimalDigit_def isRadixDigit_def digitVal_def Let_def by auto
qed

lemma parseInt_digits:
  assumes "list_all isDecimalDigit s" "s \<noteq> []"
  shows "parseInt s = Some (int (digitsValue 10 s))"
proof -
  from assms obtain c t where s: "s = c # t" by (cases s) auto
  with assms have c: "isDecimalDigit c" by simp
  have d: "dropWhile isWhiteSpace s = s"
    using s isDecimalDigit_props(1)[OF c] by simp
  have sg: "readSign s = (1, s)"
    using s isDecimalDigit_props(2,3)[OF c] by (simp add: readSign_def)
  have rx: "readRadix s = (10, s)"
  proof (cases t)
    case Nil
    with s show ?thesis by (simp add: readRadix_def)
  next
    case (Cons b u)
    with s assms have "isDecimalDigit b" by simp
    from isDecimalDigit_props(4,5)[OF this] s Cons show ?thesis
      by (simp add: readRadix_def)
  qed
  have tw: "takeWhile (isRadixDigit 10) s = s"
    using assms(1) isDecimalDigit_props(6) by (simp add: list_all_iff)
  show ?thesis
    using assms(2) by (simp add: parseInt_def d sg rx tw)
qed

lemma parseInt_decimal: "parseInt (decimal n) = Some (int n)"
  using parseInt_digits[OF decimal_digits decimal_not_Nil] by (simp add: digitsValue_decimal)

section \<open>The statements of list and count\<close>

lemma getAll_stmt_parts:
  "sel_conds (getAll_stmt fs orderBy limit offset) = fst (count_stmt fs)"
  "sel_order (getAll_stmt fs orderBy limit offset) =
     (case orderBy of None \<Rightarrow> ''data_solicitacao DESC'' | Some ob \<Rightarrow> ob)"
  "sel_params (getAll_stmt fs orderBy limit offset) =
     snd (count_stmt fs) @
       (case limit of None \<Rightarrow> [] | Some l \<Rightarrow> if l \<noteq> 0 then [PNum l, PNum offset] else [])"
  "sel_limit (getAll_stmt fs orderBy limit offset) =
     (case limit of
        None \<Rightarrow> None
      | Some l \<Rightarrow> if l \<noteq> 0 then Some (Suc (length (snd (count_stmt fs))),
                                      Suc (Suc (length (snd (count_stmt fs)))))
                else None)"
  by (simp_all add: getAll_stmt_def count_stmt_def Let_def split: option.splits)

lemma count_stmt_bound:
  "list_all (condBound (snd (count_stmt fs) @ extra)) (fst (count_stmt fs))"
  by (simp add: count_stmt_def Let_def textParam_def nthParam_def nth_append split: option.splits)

lemma count_stmt_holds:
  "list_all (condHolds (snd (count_stmt fs) @ extra) r) (fst (count_stmt fs)) = matches fs r"
  by (simp add: count_stmt_def matches_def Let_def textParam_def nthParam_def nth_append
      split: option.splits)

lemma count_stmt_where:
  "whereRows (fst (count_stmt fs)) (snd (count_stmt fs) @ extra) rs = filter (matches fs) rs"
  by (simp add: whereRows_def count_stmt_holds)

lemma Model_count_eq:
  "Model_count fs d = Inr (Some (int (length (filter (matches fs) (db_rows d)))))"
  using count_stmt_bound[of fs "[]"] count_stmt_where[of fs "[]" "db_rows d"]
  by (simp add: Model_count_def execCount_def parseInt_decimal case_prod_beta)


lemma length_orderRows: "length (orderRows ob rs) = length rs"
  by (cases ob) (simp add: orderRows_def)

lemma set_orderRows: "set (orderRows ob rs) = set rs"
  by (cases ob) (simp add: orderRows_def)

lemma execSelect_getAll:
  assumes "parseOrder (case orderBy of None \<Rightarrow> ''data_solicitacao DESC'' | Some s \<Rightarrow> s) = Some ob"
  shows "execSelect (getAll_stmt fs orderBy limit offset) d =
     (case limit of
        None \<Rightarrow> Inr (orderRows ob (filter (matches fs) (db_rows d)))
      | Some l \<Rightarrow>
         if l = 0 then Inr (orderRows ob (filter (matches fs) (db_rows d)))
         else if l < 0 then Inl (PgError ''LIMIT must not be negative'' ''2201W'')
         else if offset < 0 then Inl (PgError ''OFFSET must not be negative'' ''2201X'')
         else Inr (take (nat l) (drop (nat offset) (orderRows ob (filter (matches fs) (db_rows d))))))"
  using assms
  by (simp add: execSelect_def getAll_stmt_parts count_stmt_bound count_stmt_where
      numParam_def nthParam_def nth_append Let_def split: option.splits)


lemma parseOrder_default: "parseOrder ''data_solicitacao DESC'' = Some (OData, True)"
  by code_simp

section \<open>Searching and ordering\<close>

lemma like_percent: "like ''%'' x"
  by (induction x) auto

lemma like_plain_prefix: "plain s \<Longrightarrow> like (s @ ''%'') x = startsWith x s"
proof (induction s arbitrary: x)
  case Nil
  then show ?case by (simp add: like_percent)
next
  case (Cons c s)
  then show ?case by (cases x) (auto simp: plain_def)
qed

lemma like_plain_infix: "plain s \<Longrightarrow> like (CHR ''%'' # s @ ''%'') x = hasInfix x s"
proof (induction x)
  case Nil
  then show ?case using like_plain_prefix[of s "[]"] by simp
next
  case (Cons a x)
  then show ?case using like_plain_prefix[of s "a # x"] by simp
qed

lemma lower_mod: "n \<le> 90 \<Longrightarrow> (n + 32) mod 256 = n + (32::nat)"
  by (rule mod_less) arith

lemma of_char_lowerChar:
  "(of_char (lowerChar c) :: nat) =
     (if 65 \<le> (of_char c :: nat) \<and> (of_char c :: nat) \<le> 90 then of_char c + 32 else of_char c)"
  by (simp add: lowerChar_def Let_def lower_mod)

lemma lowerChar_special:
  "lowerChar c = CHR ''%'' \<longleftrightarrow> c = CHR ''%''"
  "lowerChar c = CHR ''_'' \<longleftrightarrow> c = CHR ''_''"
  "lowerChar c = CHR 0x5C \<longleftrightarrow> c = CHR 0x5C"
proof -
  show "lowerChar c = CHR ''%'' \<longleftrightarrow> c = CHR ''%''"
    unfolding char_eq_code[of _ "CHR ''%''"] of_char_lowerChar by auto
  show "lowerChar c = CHR ''_'' \<longleftrightarrow> c = CHR ''_''"
    unfolding char_eq_code[of _ "CHR ''_''"] of_char_lowerChar by auto
  show "lowerChar c = CHR 0x5C \<longleftrightarrow> c = CHR 0x5C"
    unfolding char_eq_code[of _ "CHR 0x5C"] of_char_lowerChar by auto
qed

lemma plain_lower: "plain (map lowerChar s) = plain s"
  by (induction s) (simp_all add: plain_def lowerChar_special)

lemma ilike_plain:
  "plain s \<Longrightarrow> ilike x (''%'' @ s @ ''%'') = hasInfixCI x s"
  using like_plain_infix[of "map lowerChar s" "map lowerChar x"]
  by (simp add: ilike_def hasInfixCI_def plain_lower lowerChar_def)



lemma Model_getAll_all:
  assumes "parseOrder (case orderBy of None \<Rightarrow> ''data_solicitacao DESC'' | Some s \<Rightarrow> s) = Some ob"
  shows "Model_getAll fs orderBy None offset d = Inr (orderRows ob (filter (matches fs) (db_rows d)))"
  by (simp add: Model_getAll_def execSelect_getAll[OF assms])



text \<open>
  C5, as amended. For every filters record, \<^verbatim>\<open>count\<close> returns the number of rows that
  \<^verbatim>\<open>getAll\<close> returns when no limit is given (for the default ordering and for every
  ordering the store accepts), because both build the same conditions and parameters: status
  and department by equality, search by \<^verbatim>\<open>ILIKE\<close> of the one parameter \<^verbatim>\<open>%search%\<close> on the
  requester name or on the equipment, all joined by \<^verbatim>\<open>AND\<close>. The search is a
  case-insensitive substring match when the search text has none of the pattern characters
  \<^verbatim>\<open>%\<close>, \<^verbatim>\<open>_\<close> and backslash.
\<close>

theorem count_equals_list:
  "Model_count fs d = Inr (Some (int (length (filter (matches fs) (db_rows d))))) \<and>
   Model_getAll fs None None offset d =
     Inr (orderRows (OData, True) (filter (matches fs) (db_rows d))) \<and>
   length (orderRows (OData, True) (filter (matches fs) (db_rows d))) =
     length (filter (matches fs) (db_rows d)) \<and>
   (parseOrder clause = Some ob \<longrightarrow>
      Model_getAll fs (Some clause) None offset d =
        Inr (orderRows ob (filter (matches fs) (db_rows d))) \<and>
      length (orderRows ob (filter (matches fs) (db_rows d))) =
        length (filter (matches fs) (db_rows d))) \<and>
   sel_conds (getAll_stmt fs orderBy None offset) = fst (count_stmt fs) \<and>
   sel_params (getAll_stmt fs orderBy None offset) = snd (count_stmt fs) \<and>
   whereRows (fst (count_stmt fs)) (snd (count_stmt fs)) (db_rows d) =
     filter (matches fs) (db_rows d) \<and>
   (plain v \<longrightarrow> ilike x (''%'' @ v @ ''%'') = hasInfixCI x v)"
proof -
  have a: "Model_getAll fs None None offset d =
     Inr (orderRows (OData, True) (filter (matches fs) (db_rows d)))"
    by (rule Model_getAll_all) (simp add: parseOrder_default)
  have b: "Model_getAll fs (Some clause) None offset d =
        Inr (orderRows ob (filter (matches fs) (db_rows d)))" if "parseOrder clause = Some ob"
    by (rule Model_getAll_all) (simp add: that)
  show ?thesis
    using a b count_stmt_where[of fs "[]" "db_rows d"] ilike_plain[of v x]
    by (simp add: Model_count_eq length_orderRows getAll_stmt_parts)
qed

theorem count_equals_list_witness:
  "Model_getAll underscoreFilters (Some ''id'') None 0 exampleDb = Inr [exampleRow] \<and>
   Model_count underscoreFilters exampleDb = Inr (Some 1) \<and>
   ilike (r_equipamento exampleRow) ''%dell%'' = hasInfixCI (r_equipamento exampleRow) ''dell''"
proof -
  have h1: "parseOrder ''id'' = Some (OId, False)" by code_simp
  have h2: "plain ''dell''" by code_simp
  have h3: "orderRows (OId, False) (filter (matches underscoreFilters) (db_rows exampleDb)) = [exampleRow]"
    by code_simp
  have h4: "filter (matches underscoreFilters) (db_rows exampleDb) = [exampleRow]"
    by code_simp
  show ?thesis
    using count_equals_list[of underscoreFilters exampleDb 0 "''id''" "(OId, False)" None "''dell''"
        "r_equipamento exampleRow"] h1 h2 h3 h4
    by simp
qed

text \<open>
  C5 as stated fails for a search text with a pattern character: searching for \<^verbatim>\<open>_\<close> returns
  (and counts) a row in which neither the requester name nor the equipment contains it.
\<close>

theorem search_is_pattern_counterexample:
  "Model_getAll underscoreFilters None None 0 exampleDb = Inr [exampleRow] \<and>
   Model_count underscoreFilters exampleDb = Inr (Some 1) \<and>
   \<not> hasInfixCI (r_nome_pessoa exampleRow) ''_'' \<and>
   \<not> hasInfixCI (r_equipamento exampleRow) ''_''"
  by code_simp

section \<open>The list handler\<close>

lemma orElse_cases:
  "orElse n d = (case n of None \<Rightarrow> d | Some v \<Rightarrow> if v = 0 then d else v)"
  by (simp add: orElse_def)












section \<open>Creating a record\<close>









section \<open>Rounding\<close>








section \<open>The status breakdown\<close>
























end
